theory Spec2Isabelle
  imports Main "HOL-Library.Word" "HOL-Library.List_Lexorder" "HOL-Library.Multiset" "HOL-Library.AList"
begin

unbundle bit_operations_syntax

section \<open>Bytes and strings\<close>

text \<open>
  A Go \<^verbatim>\<open>[]byte\<close> is a list of 8-bit words, a Go \<^verbatim>\<open>string\<close> is a list of
  \<^typ>\<open>char\<close> (the 8-bit character type). The conversions \<^verbatim>\<open>[]byte(s)\<close> and
  \<^verbatim>\<open>string(b)\<close> copy the bytes one by one.
\<close>

type_synonym byte = "8 word"
type_synonym bytes = "byte list"

definition bytes_of_string :: "string \<Rightarrow> bytes" where
  "bytes_of_string s = map of_char s"

definition string_of_bytes :: "bytes \<Rightarrow> string" where
  "string_of_bytes b = map (\<lambda>w. char_of (unat w)) b"

section \<open>Library functions used by the program\<close>

subsection \<open>\<^verbatim>\<open>bytes.Compare\<close>\<close>

text \<open>
  \<^verbatim>\<open>bytes.Compare(a, b)\<close> compares two byte slices lexicographically, bytes read as
  unsigned numbers: the result is 0 if \<^verbatim>\<open>a == b\<close>, -1 if \<^verbatim>\<open>a < b\<close> and +1 if
  \<^verbatim>\<open>a > b\<close>. The order \<open><\<close> on \<^typ>\<open>byte\<close> is the unsigned one.
\<close>

fun bytes_Compare :: "bytes \<Rightarrow> bytes \<Rightarrow> int" where
  "bytes_Compare [] [] = 0"
| "bytes_Compare [] (y # ys) = - 1"
| "bytes_Compare (x # xs) [] = 1"
| "bytes_Compare (x # xs) (y # ys) =
     (if x < y then - 1 else if y < x then 1 else bytes_Compare xs ys)"

subsection \<open>\<^verbatim>\<open>crypto/md5\<close>\<close>

text \<open>
  The MD5 digest of RFC 1321, which \<^verbatim>\<open>md5.Sum\<close> and \<^verbatim>\<open>md5.New\<close> compute. The
  32-bit words of the algorithm are natural numbers below \<open>2 ^ 32\<close>; every addition and
  rotation has its wrap-around written out.
\<close>

definition add32 :: "nat \<Rightarrow> nat \<Rightarrow> nat" where
  "add32 x y = (x + y) mod 4294967296"

definition not32 :: "nat \<Rightarrow> nat" where
  "not32 x = 4294967295 - x mod 4294967296"

definition rotl32 :: "nat \<Rightarrow> nat \<Rightarrow> nat" where
  "rotl32 x n = (x * 2 ^ n) mod 4294967296 + x div 2 ^ (32 - n)"

definition md5_shifts :: "nat list" where
  "md5_shifts = [7, 12, 17, 22, 7, 12, 17, 22, 7, 12, 17, 22, 7, 12, 17, 22,
                 5, 9, 14, 20, 5, 9, 14, 20, 5, 9, 14, 20, 5, 9, 14, 20,
                 4, 11, 16, 23, 4, 11, 16, 23, 4, 11, 16, 23, 4, 11, 16, 23,
                 6, 10, 15, 21, 6, 10, 15, 21, 6, 10, 15, 21, 6, 10, 15, 21]"

definition md5_table :: "nat list" where
  "md5_table = [
    0xd76aa478, 0xe8c7b756, 0x242070db, 0xc1bdceee, 0xf57c0faf, 0x4787c62a, 0xa8304613, 0xfd469501,
    0x698098d8, 0x8b44f7af, 0xffff5bb1, 0x895cd7be, 0x6b901122, 0xfd987193, 0xa679438e, 0x49b40821,
    0xf61e2562, 0xc040b340, 0x265e5a51, 0xe9b6c7aa, 0xd62f105d, 0x02441453, 0xd8a1e681, 0xe7d3fbc8,
    0x21e1cde6, 0xc33707d6, 0xf4d50d87, 0x455a14ed, 0xa9e3e905, 0xfcefa3f8, 0x676f02d9, 0x8d2a4c8a,
    0xfffa3942, 0x8771f681, 0x6d9d6122, 0xfde5380c, 0xa4beea44, 0x4bdecfa9, 0xf6bb4b60, 0xbebfbc70,
    0x289b7ec6, 0xeaa127fa, 0xd4ef3085, 0x04881d05, 0xd9d4d039, 0xe6db99e5, 0x1fa27cf8, 0xc4ac5665,
    0xf4292244, 0x432aff97, 0xab9423a7, 0xfc93a039, 0x655b59c3, 0x8f0ccc92, 0xffeff47d, 0x85845dd1,
    0x6fa87e4f, 0xfe2ce6e0, 0xa3014314, 0x4e0811a1, 0xf7537e82, 0xbd3af235, 0x2ad7d2bb, 0xeb86d391]"

definition md5_f :: "nat \<Rightarrow> nat \<Rightarrow> nat \<Rightarrow> nat \<Rightarrow> nat" where
  "md5_f i b c d =
     (if i < 16 then (b AND c) OR (not32 b AND d)
      else if i < 32 then (d AND b) OR (not32 d AND c)
      else if i < 48 then b XOR c XOR d
      else c XOR (b OR not32 d))"

definition md5_g :: "nat \<Rightarrow> nat" where
  "md5_g i =
     (if i < 16 then i
      else if i < 32 then (5 * i + 1) mod 16
      else if i < 48 then (3 * i + 5) mod 16
      else (7 * i) mod 16)"

type_synonym md5_state = "nat \<times> nat \<times> nat \<times> nat"

fun md5_step :: "nat list \<Rightarrow> md5_state \<Rightarrow> nat \<Rightarrow> md5_state" where
  "md5_step m (a, b, c, d) i =
     (d, add32 b (rotl32 (add32 (add32 (add32 a (md5_f i b c d)) (md5_table ! i)) (m ! md5_g i))
                         (md5_shifts ! i)), b, c)"

fun le32s :: "bytes \<Rightarrow> nat list" where
  "le32s (b0 # b1 # b2 # b3 # rest) =
     (unat b0 + 256 * unat b1 + 65536 * unat b2 + 16777216 * unat b3) # le32s rest"
| "le32s _ = []"

fun md5_add :: "md5_state \<Rightarrow> md5_state \<Rightarrow> md5_state" where
  "md5_add (a0, b0, c0, d0) (a, b, c, d) = (add32 a0 a, add32 b0 b, add32 c0 c, add32 d0 d)"

definition md5_block :: "md5_state \<Rightarrow> bytes \<Rightarrow> md5_state" where
  "md5_block st blk = md5_add st (foldl (md5_step (le32s blk)) st [0..<64])"

function md5_blocks :: "md5_state \<Rightarrow> bytes \<Rightarrow> md5_state" where
  "md5_blocks st bs =
     (if length bs < 64 then st else md5_blocks (md5_block st (take 64 bs)) (drop 64 bs))"
  by pat_completeness auto
termination
  by (relation "measure (\<lambda>(st, bs). length bs)") auto

declare md5_blocks.simps [simp del]

definition le_bytes :: "nat \<Rightarrow> nat \<Rightarrow> bytes" where
  "le_bytes k n = map (\<lambda>i. of_nat (n div 256 ^ i mod 256)) [0..<k]"

definition md5_pad :: "bytes \<Rightarrow> bytes" where
  "md5_pad msg =
     msg @ [0x80] @ replicate ((119 - length msg mod 64) mod 64) 0
         @ le_bytes 8 ((8 * length msg) mod 2 ^ 64)"

definition md5_init :: md5_state where
  "md5_init = (0x67452301, 0xefcdab89, 0x98badcfe, 0x10325476)"

fun md5_out :: "md5_state \<Rightarrow> bytes" where
  "md5_out (a, b, c, d) = le_bytes 4 a @ le_bytes 4 b @ le_bytes 4 c @ le_bytes 4 d"

definition md5_Sum :: "bytes \<Rightarrow> bytes" where
  "md5_Sum msg = md5_out (md5_blocks md5_init (md5_pad msg))"

subsection \<open>\<^verbatim>\<open>encoding/base64\<close>\<close>

text \<open>
  \<^verbatim>\<open>base64.StdEncoding\<close>: the alphabet of RFC 4648 section 4, with \<open>=\<close> padding.
  The encoder packs three bytes into 24 bits and emits four 6-bit digits; one or two
  left-over bytes give two or three digits and padding.
\<close>

definition encodeStd :: string where
  "encodeStd = ''ABCDEFGHIJKLMNOPQRSTUVWXYZabcdefghijklmnopqrstuvwxyz0123456789+/''"

definition enc :: "nat \<Rightarrow> char" where
  "enc i = encodeStd ! (i mod 64)"

fun EncodeToString :: "bytes \<Rightarrow> string" where
  "EncodeToString [] = []"
| "EncodeToString [a] =
     [enc (unat a * 65536 div 262144), enc (unat a * 65536 div 4096), CHR ''='', CHR ''='']"
| "EncodeToString [a, b] =
     [enc ((unat a * 65536 + unat b * 256) div 262144),
      enc ((unat a * 65536 + unat b * 256) div 4096),
      enc ((unat a * 65536 + unat b * 256) div 64), CHR ''='']"
| "EncodeToString (a # b # c # rest) =
     [enc ((unat a * 65536 + unat b * 256 + unat c) div 262144),
      enc ((unat a * 65536 + unat b * 256 + unat c) div 4096),
      enc ((unat a * 65536 + unat b * 256 + unat c) div 64),
      enc (unat a * 65536 + unat b * 256 + unat c)] @ EncodeToString rest"

text \<open>
  A decoder for this encoding, as RFC 4648 describes it: four digits give three bytes, the
  last group may end in one or two \<open>=\<close>; any other character, and a length that is
  not a multiple of four, is an error (\<open>None\<close>).
\<close>

definition dec :: "char \<Rightarrow> nat option" where
  "dec c = map_of (zip encodeStd [0..<64]) c"

fun decode_base64 :: "string \<Rightarrow> bytes option" where
  "decode_base64 [] = Some []"
| "decode_base64 [c0, c1, c2, c3] =
     (case (dec c0, dec c1) of
        (Some s0, Some s1) \<Rightarrow>
          (if c2 = CHR ''='' \<and> c3 = CHR ''='' then Some [of_nat (s0 * 4 + s1 div 16)]
           else (case dec c2 of
                   None \<Rightarrow> None
                 | Some s2 \<Rightarrow>
                     (if c3 = CHR ''=''
                      then Some [of_nat (s0 * 4 + s1 div 16), of_nat (s1 mod 16 * 16 + s2 div 4)]
                      else (case dec c3 of
                              None \<Rightarrow> None
                            | Some s3 \<Rightarrow>
                                Some [of_nat (s0 * 4 + s1 div 16),
                                      of_nat (s1 mod 16 * 16 + s2 div 4),
                                      of_nat (s2 mod 4 * 64 + s3)]))))
      | _ \<Rightarrow> None)"
| "decode_base64 (c0 # c1 # c2 # c3 # rest) =
     (case (dec c0, dec c1, dec c2, dec c3, decode_base64 rest) of
        (Some s0, Some s1, Some s2, Some s3, Some bs) \<Rightarrow>
          Some (of_nat (s0 * 4 + s1 div 16) # of_nat (s1 mod 16 * 16 + s2 div 4)
                # of_nat (s2 mod 4 * 64 + s3) # bs)
      | _ \<Rightarrow> None)"
| "decode_base64 _ = None"

subsection \<open>\<^verbatim>\<open>fmt.Sprintf\<close> with \<^verbatim>\<open>%02x\<close>\<close>

definition hex_digits :: string where
  "hex_digits = ''0123456789abcdef''"

definition hex2 :: "byte \<Rightarrow> string" where
  "hex2 b = [hex_digits ! (unat b div 16), hex_digits ! (unat b mod 16)]"

section \<open>Hash functions (\<^verbatim>\<open>lib.go\<close>)\<close>

text \<open>\<^verbatim>\<open>key2path\<close>: \<^verbatim>\<open>fmt.Sprintf("/%02x/%02x/%s", mkey[0], mkey[1], b64key)\<close>.\<close>

definition key2path :: "bytes \<Rightarrow> string" where
  "key2path key =
     ''/'' @ hex2 (md5_Sum key ! 0) @ ''/'' @ hex2 (md5_Sum key ! 1) @ ''/'' @ EncodeToString key"

text \<open>
  The score of a volume for a key: \<^verbatim>\<open>hash.Write(key); hash.Write([]byte(v));
  hash.Sum(nil)\<close>, the digest of the key followed by the volume's name.
\<close>

definition score :: "bytes \<Rightarrow> string \<Rightarrow> bytes" where
  "score key v = md5_Sum (key @ bytes_of_string v)"

text \<open>
  The loop of \<^verbatim>\<open>key2volume\<close>. \<^verbatim>\<open>bestScore\<close> starts as the nil slice (\<open>None\<close>);
  \<^verbatim>\<open>hash.Sum(nil)\<close> is never nil.
\<close>

fun key2volume_loop :: "bytes \<Rightarrow> string list \<Rightarrow> bytes option \<Rightarrow> string \<Rightarrow> string" where
  "key2volume_loop key [] bestScore ret = ret"
| "key2volume_loop key (v # vs) bestScore ret =
     (if bestScore = None \<or> bytes_Compare (the bestScore) (score key v) = - 1
      then key2volume_loop key vs (Some (score key v)) v
      else key2volume_loop key vs bestScore ret)"

definition key2volume :: "bytes \<Rightarrow> string list \<Rightarrow> string" where
  "key2volume key vs = key2volume_loop key vs None []"

section \<open>The outside world\<close>

text \<open>
  The handler talks to two things outside the process: the metadata store (a LevelDB
  opened with \<^verbatim>\<open>goleveldb\<close>) and the volume servers, reached over HTTP. The store
  is an association list from keys to values, read with \<^const>\<open>map_of\<close>. What the outside
  world answers during one request is an input of the model: whether a store call returns
  an error of its own (an I/O error, a closed or corrupted database), whether the iterator
  of a listing breaks off, and how the volume server replies. A store call that returns
  such an error changes nothing.
\<close>

type_synonym leveldb = "(bytes \<times> bytes) list"

datatype error = ErrNotFound | OtherError

datatype http_reply = Failed | Status nat

record world =
  get_fails :: bool
  put_fails :: bool
  delete_fails :: bool
  iterator_stops :: "nat option"
  put_reply :: http_reply
  delete_reply :: http_reply

text \<open>
  \<^verbatim>\<open>db.Get\<close> returns the value and a nil error, or \<^verbatim>\<open>leveldb.ErrNotFound\<close> when
  the key has no entry, or another error; \<^verbatim>\<open>db.Put\<close> and \<^verbatim>\<open>db.Delete\<close> return
  nil or an error. \<open>None\<close> is the nil error.
\<close>

definition db_Get :: "world \<Rightarrow> leveldb \<Rightarrow> bytes \<Rightarrow> bytes \<times> error option" where
  "db_Get w d k =
     (if get_fails w then ([], Some OtherError)
      else (case map_of d k of None \<Rightarrow> ([], Some ErrNotFound) | Some v \<Rightarrow> (v, None)))"

definition db_Put :: "world \<Rightarrow> leveldb \<Rightarrow> bytes \<Rightarrow> bytes \<Rightarrow> leveldb \<times> error option" where
  "db_Put w d k v = (if put_fails w then (d, Some OtherError) else (AList.update k v d, None))"

definition db_Delete :: "world \<Rightarrow> leveldb \<Rightarrow> bytes \<Rightarrow> leveldb \<times> error option" where
  "db_Delete w d k = (if delete_fails w then (d, Some OtherError) else (AList.delete k d, None))"

text \<open>
  The iterator over \<^verbatim>\<open>util.BytesPrefix(key)\<close>: the keys of the store that start with
  \<^verbatim>\<open>key\<close>, each once, in ascending bytewise order. When the iterator meets an error
  \<^verbatim>\<open>iter.Next()\<close> returns false early: \<open>iterator_stops w = Some n\<close> says that it
  does so after \<open>n\<close> keys.
\<close>

definition prefix_keys :: "leveldb \<Rightarrow> bytes \<Rightarrow> bytes list" where
  "prefix_keys d key = sort (remdups (filter (\<lambda>k. take (length key) k = key) (map fst d)))"

definition iterate :: "world \<Rightarrow> leveldb \<Rightarrow> bytes \<Rightarrow> bytes list" where
  "iterate w d key =
     (case iterator_stops w of None \<Rightarrow> prefix_keys d key | Some n \<Rightarrow> take n (prefix_keys d key))"

section \<open>Remote access functions (\<^verbatim>\<open>lib.go\<close>)\<close>

text \<open>
  Both functions are called with \<open>http://\<close>, a volume name and a path. \<^verbatim>\<open>net/http\<close>
  reads the host out of such a URL: the authority is what follows \<open>http://\<close> up to the
  first \<open>/\<close>, \<open>?\<close> or \<open>#\<close>, and the host is what follows the last \<open>@\<close> in it.
\<close>

definition authority_char :: "char \<Rightarrow> bool" where
  "authority_char c \<longleftrightarrow> c \<noteq> CHR ''/'' \<and> c \<noteq> CHR ''?'' \<and> c \<noteq> CHR ''#''"

definition not_at :: "char \<Rightarrow> bool" where
  "not_at c \<longleftrightarrow> c \<noteq> CHR ''@''"

definition url_host :: "string \<Rightarrow> string" where
  "url_host remote = rev (takeWhile not_at (rev (takeWhile authority_char (drop 7 remote))))"

text \<open>
  \<^verbatim>\<open>remote_delete\<close> and \<^verbatim>\<open>remote_put\<close> return an error when the request cannot be
  built or sent, or when the status code is not the expected one. A URL with an empty
  host is never sent (\<^verbatim>\<open>http: no Host in request URL\<close>), whatever the world; for any
  other URL the world says whether the request fails (\<^const>\<open>Failed\<close>: a URL that
  does not parse, no connection) or which status comes back.
\<close>

definition remote_delete :: "world \<Rightarrow> string \<Rightarrow> error option" where
  "remote_delete w remote =
     (if url_host remote = [] then Some OtherError
      else (case delete_reply w of
              Failed \<Rightarrow> Some OtherError
            | Status c \<Rightarrow> (if c \<noteq> 204 then Some OtherError else None)))"

definition remote_put :: "world \<Rightarrow> string \<Rightarrow> int \<Rightarrow> error option" where
  "remote_put w remote len =
     (if url_host remote = [] then Some OtherError
      else (case put_reply w of
              Failed \<Rightarrow> Some OtherError
            | Status c \<Rightarrow> (if c \<noteq> 201 \<and> c \<noteq> 204 then Some OtherError else None)))"

section \<open>Master server (\<^verbatim>\<open>server.go\<close>)\<close>

text \<open>
  The \<^verbatim>\<open>App\<close> struct. The lock table \<^verbatim>\<open>map[string]struct{}\<close> is a set of strings;
  the mutex around it does not appear, since one request is handled at a time here.
\<close>

record App =
  db :: leveldb
  lock :: "string set"
  volumes :: "string list"

text \<open>What the handler reads of the \<^verbatim>\<open>http.Request\<close>.\<close>

record Request =
  Method :: string
  Path :: string
  RawQuery :: string
  ContentLength :: int

text \<open>
  What the handler writes to the \<^verbatim>\<open>http.ResponseWriter\<close>: the status code, the
  headers it sets, in order, and the body. The body of a listing is what
  \<^verbatim>\<open>json.Marshal\<close> writes for the slice of keys (a JSON array of strings, in which
  bytes that are not valid UTF-8 come out as U+FFFD); it is kept as the slice itself.
\<close>

datatype body = NoBody | JsonMarshal "string list"

record response =
  status :: nat
  header :: "(string \<times> string) list"
  body :: body

definition WriteHeader :: "nat \<Rightarrow> response" where
  "WriteHeader c = \<lparr>status = c, header = [], body = NoBody\<rparr>"

text \<open>
  The calls the handler makes on the outside world, in the order it makes them.
\<close>

datatype event =
    DbGet bytes
  | DbPut bytes bytes
  | DbDelete bytes
  | DbIterate bytes
  | RemotePut string int
  | RemoteDelete string
  | Println string

definition UnlockKey :: "App \<Rightarrow> bytes \<Rightarrow> App" where
  "UnlockKey a key = a\<lparr>lock := lock a - {string_of_bytes key}\<rparr>"

definition LockKey :: "App \<Rightarrow> bytes \<Rightarrow> bool \<times> App" where
  "LockKey a key =
     (if string_of_bytes key \<in> lock a then (False, a)
      else (True, a\<lparr>lock := insert (string_of_bytes key) (lock a)\<rparr>))"

text \<open>
  \<^verbatim>\<open>ListQueryHandler\<close>. The loop stops with 413 as soon as more than 1000000 keys are
  collected. The handler does not ask the iterator for an error, so a listing that breaks
  off is answered 200 with the keys read so far. \<^verbatim>\<open>json.Marshal\<close> of a slice of
  strings returns no error.
\<close>

definition ListQueryHandler ::
  "world \<Rightarrow> App \<Rightarrow> bytes \<Rightarrow> Request \<Rightarrow> response \<times> event list" where
  "ListQueryHandler w a key r =
     (if RawQuery r = ''list'' then
        (if length (iterate w (db a) key) > 1000000 then (WriteHeader 413, [DbIterate key])
         else (\<lparr>status = 200, header = [(''Content-Type'', ''application/json'')],
                body = JsonMarshal (map string_of_bytes (iterate w (db a) key))\<rparr>,
               [DbIterate key]))
      else (WriteHeader 403, []))"

text \<open>The three cases of the \<^verbatim>\<open>switch r.Method\<close> in \<^verbatim>\<open>ServeHTTP\<close>.\<close>

definition serve_get :: "world \<Rightarrow> App \<Rightarrow> bytes \<Rightarrow> response \<times> App \<times> event list" where
  "serve_get w a key =
     (case db_Get w (db a) key of (kvolume, err) \<Rightarrow>
        if err = Some ErrNotFound
        then (\<lparr>status = 404, header = [(''Content-Length'', ''0'')], body = NoBody\<rparr>, a, [DbGet key])
        else (\<lparr>status = 302,
                header = [(''Location'', ''http://'' @ string_of_bytes kvolume @ key2path key),
                          (''Content-Length'', ''0'')],
                body = NoBody\<rparr>, a,
              DbGet key #
                (if string_of_bytes kvolume \<noteq> key2volume key (volumes a)
                 then [Println ''on wrong volume, needs rebalance''] else [])))"

definition serve_put :: "world \<Rightarrow> App \<Rightarrow> Request \<Rightarrow> bytes \<Rightarrow> response \<times> App \<times> event list" where
  "serve_put w a r key =
     (if ContentLength r = 0 then (WriteHeader 411, a, [])
      else if snd (db_Get w (db a) key) \<noteq> Some ErrNotFound
      then (WriteHeader 403, a, [DbGet key])
      else if remote_put w (''http://'' @ key2volume key (volumes a) @ key2path key)
                (ContentLength r) \<noteq> None
      then (WriteHeader 500, a,
            [DbGet key,
             RemotePut (''http://'' @ key2volume key (volumes a) @ key2path key) (ContentLength r)])
      else (case db_Put w (db a) key (bytes_of_string (key2volume key (volumes a))) of
              (d, err) \<Rightarrow>
                (WriteHeader (if err \<noteq> None then 500 else 201), a\<lparr>db := d\<rparr>,
                 [DbGet key,
                  RemotePut (''http://'' @ key2volume key (volumes a) @ key2path key)
                    (ContentLength r),
                  DbPut key (bytes_of_string (key2volume key (volumes a)))])))"

definition serve_delete :: "world \<Rightarrow> App \<Rightarrow> bytes \<Rightarrow> response \<times> App \<times> event list" where
  "serve_delete w a key =
     (case db_Get w (db a) key of (data, err) \<Rightarrow>
        if err = Some ErrNotFound then (WriteHeader 404, a, [DbGet key])
        else (WriteHeader
                (if remote_delete w (''http://'' @ string_of_bytes data @ key2path key) \<noteq> None
                 then 500 else 204),
              a\<lparr>db := fst (db_Delete w (db a) key)\<rparr>,
              [DbGet key, DbDelete key,
               RemoteDelete (''http://'' @ string_of_bytes data @ key2path key)]))"

text \<open>
  A method other than these four writes nothing; \<^verbatim>\<open>net/http\<close> then answers 200 with
  an empty body.
\<close>

definition serve_method :: "world \<Rightarrow> App \<Rightarrow> Request \<Rightarrow> bytes \<Rightarrow> response \<times> App \<times> event list" where
  "serve_method w a r key =
     (if Method r = ''GET'' \<or> Method r = ''HEAD'' then serve_get w a key
      else if Method r = ''PUT'' then serve_put w a r key
      else if Method r = ''DELETE'' then serve_delete w a key
      else (WriteHeader 200, a, []))"

text \<open>
  \<^verbatim>\<open>ServeHTTP\<close>: the query string first, then the lock for \<^verbatim>\<open>PUT\<close> and
  \<^verbatim>\<open>DELETE\<close> (released by the deferred \<^verbatim>\<open>UnlockKey\<close> when the handler returns),
  then the switch on the method. The result is the response, the \<^verbatim>\<open>App\<close> afterwards
  and the calls made.
\<close>

definition ServeHTTP :: "world \<Rightarrow> App \<Rightarrow> Request \<Rightarrow> response \<times> App \<times> event list" where
  "ServeHTTP w a r =
     (if length (RawQuery r) > 0 then
        (if Method r \<noteq> ''GET'' then (WriteHeader 403, a, [])
         else (fst (ListQueryHandler w a (bytes_of_string (Path r)) r), a,
               snd (ListQueryHandler w a (bytes_of_string (Path r)) r)))
      else if Method r = ''PUT'' \<or> Method r = ''DELETE'' then
        (if \<not> fst (LockKey a (bytes_of_string (Path r)))
         then (WriteHeader 409, snd (LockKey a (bytes_of_string (Path r))), [])
         else (case serve_method w (snd (LockKey a (bytes_of_string (Path r)))) r
                      (bytes_of_string (Path r)) of
                 (resp, a', evs) \<Rightarrow> (resp, UnlockKey a' (bytes_of_string (Path r)), evs)))
      else serve_method w a r (bytes_of_string (Path r)))"

text \<open>Path segments: the pieces between the \<open>/\<close> characters, after the leading one.\<close>

fun split_on :: "char \<Rightarrow> string \<Rightarrow> string list" where
  "split_on c [] = [[]]"
| "split_on c (x # xs) =
     (if x = c then [] # split_on c xs
      else (case split_on c xs of [] \<Rightarrow> [[x]] | s # ss \<Rightarrow> (x # s) # ss))"

definition segments :: "string \<Rightarrow> string list" where
  "segments p = tl (split_on CHR ''/'' p)"

section \<open>Values used in the examples\<close>

text \<open>A world in which every store call and every volume server call succeeds.\<close>

definition calm :: world where
  "calm = \<lparr>get_fails = False, put_fails = False, delete_fails = False,
            iterator_stops = None, put_reply = Status 201, delete_reply = Status 204\<rparr>"

text \<open>
  Two different messages of 128 bytes with the same MD5 digest (the collision published by
  Wang and Yu in 2004). Neither contains a zero byte or a comma.
\<close>

definition collision_a :: bytes where
  "collision_a =
   [0xd1, 0x31, 0xdd, 0x02, 0xc5, 0xe6, 0xee, 0xc4, 0x69, 0x3d, 0x9a, 0x06, 0x98, 0xaf, 0xf9, 0x5c,
    0x2f, 0xca, 0xb5, 0x87, 0x12, 0x46, 0x7e, 0xab, 0x40, 0x04, 0x58, 0x3e, 0xb8, 0xfb, 0x7f, 0x89,
    0x55, 0xad, 0x34, 0x06, 0x09, 0xf4, 0xb3, 0x02, 0x83, 0xe4, 0x88, 0x83, 0x25, 0x71, 0x41, 0x5a,
    0x08, 0x51, 0x25, 0xe8, 0xf7, 0xcd, 0xc9, 0x9f, 0xd9, 0x1d, 0xbd, 0xf2, 0x80, 0x37, 0x3c, 0x5b,
    0xd8, 0x82, 0x3e, 0x31, 0x56, 0x34, 0x8f, 0x5b, 0xae, 0x6d, 0xac, 0xd4, 0x36, 0xc9, 0x19, 0xc6,
    0xdd, 0x53, 0xe2, 0xb4, 0x87, 0xda, 0x03, 0xfd, 0x02, 0x39, 0x63, 0x06, 0xd2, 0x48, 0xcd, 0xa0,
    0xe9, 0x9f, 0x33, 0x42, 0x0f, 0x57, 0x7e, 0xe8, 0xce, 0x54, 0xb6, 0x70, 0x80, 0xa8, 0x0d, 0x1e,
    0xc6, 0x98, 0x21, 0xbc, 0xb6, 0xa8, 0x83, 0x93, 0x96, 0xf9, 0x65, 0x2b, 0x6f, 0xf7, 0x2a, 0x70]"

definition collision_b :: bytes where
  "collision_b =
   [0xd1, 0x31, 0xdd, 0x02, 0xc5, 0xe6, 0xee, 0xc4, 0x69, 0x3d, 0x9a, 0x06, 0x98, 0xaf, 0xf9, 0x5c,
    0x2f, 0xca, 0xb5, 0x07, 0x12, 0x46, 0x7e, 0xab, 0x40, 0x04, 0x58, 0x3e, 0xb8, 0xfb, 0x7f, 0x89,
    0x55, 0xad, 0x34, 0x06, 0x09, 0xf4, 0xb3, 0x02, 0x83, 0xe4, 0x88, 0x83, 0x25, 0xf1, 0x41, 0x5a,
    0x08, 0x51, 0x25, 0xe8, 0xf7, 0xcd, 0xc9, 0x9f, 0xd9, 0x1d, 0xbd, 0x72, 0x80, 0x37, 0x3c, 0x5b,
    0xd8, 0x82, 0x3e, 0x31, 0x56, 0x34, 0x8f, 0x5b, 0xae, 0x6d, 0xac, 0xd4, 0x36, 0xc9, 0x19, 0xc6,
    0xdd, 0x53, 0xe2, 0x34, 0x87, 0xda, 0x03, 0xfd, 0x02, 0x39, 0x63, 0x06, 0xd2, 0x48, 0xcd, 0xa0,
    0xe9, 0x9f, 0x33, 0x42, 0x0f, 0x57, 0x7e, 0xe8, 0xce, 0x54, 0xb6, 0x70, 0x80, 0x28, 0x0d, 0x1e,
    0xc6, 0x98, 0x21, 0xbc, 0xb6, 0xa8, 0x83, 0x93, 0x96, 0xf9, 0x65, 0xab, 0x6f, 0xf7, 0x2a, 0x70]"

section \<open>Bytes and strings: the conversions are inverse\<close>

lemma unat_byte_less: "unat (w :: byte) < 256"
  using unsigned_less [of w, where ?'a = nat] by simp

lemma unat_of_char_byte: "unat (of_char c :: byte) = of_char c"
proof -
  have "unat (of_nat (of_char c) :: byte) = of_char c"
    by (simp add: unat_of_nat)
  then show ?thesis
    by (simp add: of_nat_of_char)
qed

lemma string_of_bytes_of_string [simp]: "string_of_bytes (bytes_of_string s) = s"
  by (induction s) (simp_all add: string_of_bytes_def bytes_of_string_def unat_of_char_byte)

lemma of_char_char_of_unat: "(of_char (char_of (unat w)) :: byte) = w"
proof -
  have "(of_char (char_of (unat w)) :: nat) = unat w mod 256"
    by (rule of_char_of)
  also have "\<dots> = unat w"
    using unat_byte_less [of w] by simp
  finally have "(of_nat (of_char (char_of (unat w))) :: byte) = of_nat (unat w)"
    by (rule arg_cong)
  then have "(of_char (char_of (unat w)) :: byte) = of_nat (unat w)"
    by (simp only: of_nat_of_char)
  then show ?thesis
    by simp
qed

lemma bytes_of_string_of_bytes [simp]: "bytes_of_string (string_of_bytes b) = b"
  by (induction b) (simp_all add: string_of_bytes_def bytes_of_string_def of_char_char_of_unat)

lemma string_of_bytes_inj: "string_of_bytes a = string_of_bytes b \<longleftrightarrow> a = b"
  by (metis bytes_of_string_of_bytes)

lemma bytes_of_string_Nil: "bytes_of_string [] = []"
  by (simp add: bytes_of_string_def)

lemma string_of_bytes_Nil: "string_of_bytes [] = []"
  by (simp add: string_of_bytes_def)

section \<open>Properties of the library functions\<close>

text \<open>
  \<^const>\<open>bytes_Compare\<close> decides the lexicographic order on lists of bytes, the order
  \<open><\<close> on lists (the lexicographic one of the library) over the unsigned order on bytes.
\<close>

lemma bytes_less_unsigned:
  "(a :: bytes) < b \<longleftrightarrow> (a, b) \<in> lexord {(x, y). unat x < unat y}"
  by (simp add: list_less_def word_less_nat_alt)

lemma bytes_Compare_less: "bytes_Compare a b = - 1 \<longleftrightarrow> a < b"
  by (induction a b rule: bytes_Compare.induct) auto

lemma bytes_Compare_eq: "bytes_Compare a b = 0 \<longleftrightarrow> a = b"
  by (induction a b rule: bytes_Compare.induct) auto

lemma bytes_Compare_greater: "bytes_Compare a b = 1 \<longleftrightarrow> b < a"
  by (induction a b rule: bytes_Compare.induct) auto

text \<open>A digest has 16 bytes, so \<^verbatim>\<open>mkey[0]\<close> and \<^verbatim>\<open>mkey[1]\<close> are in range.\<close>

lemma length_le_bytes [simp]: "length (le_bytes k n) = k"
  by (simp add: le_bytes_def)

lemma length_md5_Sum [simp]: "length (md5_Sum msg) = 16"
  by (cases "md5_blocks md5_init (md5_pad msg)" rule: prod_cases4) (simp add: md5_Sum_def)

subsection \<open>Base64: decoding inverts encoding\<close>

lemma distinct_encodeStd: "distinct encodeStd"
  by (simp add: encodeStd_def)

lemma length_encodeStd [simp]: "length encodeStd = 64"
  by (simp add: encodeStd_def)

lemma dec_enc [simp]: "dec (enc i) = Some (i mod 64)"
proof -
  have "map_of (zip encodeStd [0..<64]) (encodeStd ! (i mod 64)) = Some ([0..<64] ! (i mod 64))"
    by (rule map_of_zip_nth) (simp_all add: distinct_encodeStd)
  then show ?thesis
    by (simp add: dec_def enc_def)
qed

lemma enc_in_encodeStd: "enc i \<in> set encodeStd"
  by (simp add: enc_def)

lemma pad_not_in_encodeStd: "CHR ''='' \<notin> set encodeStd"
  by (simp add: encodeStd_def)

lemma enc_not_pad [simp]: "enc i \<noteq> CHR ''=''"
  using enc_in_encodeStd [of i] pad_not_in_encodeStd by metis

lemma sextet3: "(a * 65536 + b * 256 + c) mod 64 = (c::nat) mod 64"
proof -
  have "a * 65536 + b * 256 + c = (a * 1024 + b * 4) * 64 + c" by simp
  then show ?thesis by (simp only: mod_mult_self3)
qed

lemma div64: "(a * 65536 + b * 256 + c) div 64 = a * 1024 + b * 4 + (c::nat) div 64"
proof -
  have "a * 65536 + b * 256 + c = (a * 1024 + b * 4) * 64 + c" by simp
  then show ?thesis by (simp only: div_mult_self3)
qed

lemma div4_small: "d < 4 \<Longrightarrow> (b * 4 + d) div 4 = (b::nat)"
  by simp

lemma div16_small: "e < 16 \<Longrightarrow> (a * 16 + e) div 16 = (a::nat)"
  by simp

lemma small_div64: "d < 4 \<Longrightarrow> (b * 4 + d) div 64 = (b::nat) div 16"
proof -
  assume d: "d < 4"
  have "(b * 4 + d) div 64 = (b * 4 + d) div 4 div 16"
    by (simp add: div_mult2_eq [symmetric])
  then show ?thesis using d by simp
qed

lemma small_mod64: "d < 4 \<Longrightarrow> (b * 4 + d) mod 64 = (b::nat) mod 16 * 4 + d"
proof -
  assume d: "d < 4"
  have "(b * 4 + d) mod (4 * 16) = 4 * ((b * 4 + d) div 4 mod 16) + (b * 4 + d) mod 4"
    by (rule mod_mult2_eq)
  then show ?thesis using d by simp
qed

lemma mid_div64: "e < 16 \<Longrightarrow> (a * 16 + e) div 64 = (a::nat) div 4"
proof -
  assume e: "e < 16"
  have "(a * 16 + e) div 64 = (a * 16 + e) div 16 div 4"
    by (simp add: div_mult2_eq [symmetric])
  then show ?thesis using e by simp
qed

lemma mid_mod64: "e < 16 \<Longrightarrow> (a * 16 + e) mod 64 = (a::nat) mod 4 * 16 + e"
proof -
  assume e: "e < 16"
  have "(a * 16 + e) mod (16 * 4) = 16 * ((a * 16 + e) div 16 mod 4) + (a * 16 + e) mod 16"
    by (rule mod_mult2_eq)
  then show ?thesis using e by simp
qed

lemma div4096: "c < 256 \<Longrightarrow> (a * 65536 + b * 256 + c) div 4096 = a * 16 + (b::nat) div 16"
proof -
  assume c: "c < 256"
  then have d: "c div 64 < 4" by simp
  have "(a * 65536 + b * 256 + c) div 4096 = (a * 65536 + b * 256 + c) div 64 div 64"
    by (simp add: div_mult2_eq [symmetric])
  also have "\<dots> = (a * 16 * 64 + (b * 4 + c div 64)) div 64"
    by (simp add: div64)
  also have "\<dots> = a * 16 + (b * 4 + c div 64) div 64"
    by (simp only: div_mult_self3)
  finally show ?thesis using small_div64 [OF d] by simp
qed

lemma div262144: "b < 256 \<Longrightarrow> c < 256 \<Longrightarrow> (a * 65536 + b * 256 + c) div 262144 = (a::nat) div 4"
proof -
  assume b: "b < 256" and c: "c < 256"
  from b have e: "b div 16 < 16" by simp
  have "(a * 65536 + b * 256 + c) div 262144 = (a * 65536 + b * 256 + c) div 4096 div 64"
    by (simp add: div_mult2_eq [symmetric])
  then show ?thesis using mid_div64 [OF e] by (simp add: div4096 [OF c])
qed

text \<open>The four digits of a group, in terms of its bytes.\<close>

lemma digit0: "a < 256 \<Longrightarrow> b < 256 \<Longrightarrow> c < 256 \<Longrightarrow>
    (a * 65536 + b * 256 + c) div 262144 mod 64 = (a::nat) div 4"
  by (simp add: div262144)

lemma digit1: "b < 256 \<Longrightarrow> c < 256 \<Longrightarrow>
    (a * 65536 + b * 256 + c) div 4096 mod 64 = (a::nat) mod 4 * 16 + b div 16"
proof -
  assume b: "b < 256" and c: "c < 256"
  from b have e: "b div 16 < 16" by simp
  show ?thesis using mid_mod64 [OF e] by (simp add: div4096 [OF c])
qed

lemma digit2: "c < 256 \<Longrightarrow>
    (a * 65536 + b * 256 + c) div 64 mod 64 = (b::nat) mod 16 * 4 + c div 64"
proof -
  assume c: "c < 256"
  then have d: "c div 64 < 4" by simp
  have eq: "a * 1024 + b * 4 + c div 64 = a * 16 * 64 + (b * 4 + c div 64)"
    by simp
  have "(a * 65536 + b * 256 + c) div 64 mod 64 = (a * 16 * 64 + (b * 4 + c div 64)) mod 64"
    by (simp only: div64 eq)
  also have "\<dots> = (b * 4 + c div 64) mod 64"
    by (simp only: mod_mult_self3)
  finally show ?thesis using small_mod64 [OF d] by simp
qed

text \<open>The bytes of a group, back from its digits.\<close>

lemma byte0: "b < 256 \<Longrightarrow> a div 4 * 4 + (a mod 4 * 16 + b div 16) div 16 = (a::nat)"
proof -
  assume b: "b < 256"
  then have e: "b div 16 < 16" by simp
  show ?thesis using div16_small [OF e, of "a mod 4"] by simp
qed

lemma byte1: "b < 256 \<Longrightarrow> c < 256 \<Longrightarrow>
    (a mod 4 * 16 + b div 16) mod 16 * 16 + (b mod 16 * 4 + c div 64) div 4 = (b::nat)"
proof -
  assume b: "b < 256" and c: "c < 256"
  from b have e: "b div 16 < 16" by simp
  from c have d: "c div 64 < 4" by simp
  have "(a mod 4 * 16 + b div 16) mod 16 = b div 16"
    using e by simp
  moreover have "(b mod 16 * 4 + c div 64) div 4 = b mod 16"
    using d by simp
  ultimately show ?thesis by simp
qed

lemma byte2: "c < 256 \<Longrightarrow> (b mod 16 * 4 + c div 64) mod 4 * 64 + c mod 64 = (c::nat)"
proof -
  assume c: "c < 256"
  then have d: "c div 64 < 4" by simp
  have "(b mod 16 * 4 + c div 64) mod 4 = c div 64"
    using d by simp
  then show ?thesis by simp
qed

lemma EncodeToString_eq_Nil [simp]: "EncodeToString k = [] \<longleftrightarrow> k = []"
  by (cases k rule: EncodeToString.cases) simp_all

lemma decode_base64_group:
  assumes "c2 \<noteq> CHR ''=''" "c3 \<noteq> CHR ''=''"
  shows "decode_base64 (c0 # c1 # c2 # c3 # rest) =
    (case (dec c0, dec c1, dec c2, dec c3, decode_base64 rest) of
       (Some s0, Some s1, Some s2, Some s3, Some bs) \<Rightarrow>
         Some (of_nat (s0 * 4 + s1 div 16) # of_nat (s1 mod 16 * 16 + s2 div 4)
               # of_nat (s2 mod 4 * 64 + s3) # bs)
     | _ \<Rightarrow> None)"
  using assms by (cases rest) (auto split: option.splits)

lemma group_bytes:
  fixes a b c :: byte
  defines "v \<equiv> unat a * 65536 + unat b * 256 + unat c"
  shows "(of_nat (v div 262144 mod 64 * 4 + v div 4096 mod 64 div 16) :: byte) = a"
    and "(of_nat (v div 4096 mod 64 mod 16 * 16 + v div 64 mod 64 div 4) :: byte) = b"
    and "(of_nat (v div 64 mod 64 mod 4 * 64 + v mod 64) :: byte) = c"
proof -
  have a: "unat a < 256" and b: "unat b < 256" and c: "unat c < 256"
    by (rule unat_byte_less)+
  have d0: "v div 262144 mod 64 = unat a div 4"
    unfolding v_def by (rule digit0 [OF a b c])
  have d1: "v div 4096 mod 64 = unat a mod 4 * 16 + unat b div 16"
    unfolding v_def by (rule digit1 [OF b c])
  have d2: "v div 64 mod 64 = unat b mod 16 * 4 + unat c div 64"
    unfolding v_def by (rule digit2 [OF c])
  have d3: "v mod 64 = unat c mod 64"
    unfolding v_def by (rule sextet3)
  show "(of_nat (v div 262144 mod 64 * 4 + v div 4096 mod 64 div 16) :: byte) = a"
    by (simp only: d0 d1 byte0 [OF b]) simp
  show "(of_nat (v div 4096 mod 64 mod 16 * 16 + v div 64 mod 64 div 4) :: byte) = b"
    by (simp only: d1 d2 byte1 [OF b c]) simp
  show "(of_nat (v div 64 mod 64 mod 4 * 64 + v mod 64) :: byte) = c"
    by (simp only: d2 d3 byte2 [OF c]) simp
qed

lemma decode_base64_EncodeToString: "decode_base64 (EncodeToString k) = Some k"
proof (induction k rule: EncodeToString.induct)
  case 1
  show ?case by simp
next
  case (2 a)
  show ?case
    using group_bytes(1) [of a 0 0] by simp
next
  case (3 a b)
  show ?case
    using group_bytes(1) [of a b 0] group_bytes(2) [of a b 0] by simp
next
  case (4 a b c rest)
  show ?case
    using 4 group_bytes [of a b c] by (simp add: decode_base64_group)
qed

lemma EncodeToString_chars: "set (EncodeToString k) \<subseteq> set encodeStd \<union> {CHR ''=''}"
  by (induction k rule: EncodeToString.induct) (simp_all add: enc_in_encodeStd)

lemma EncodeToString_inj: "EncodeToString k = EncodeToString k' \<Longrightarrow> k = k'"
  by (metis decode_base64_EncodeToString option.inject)

subsection \<open>Two hexadecimal digits\<close>

lemma hex_digits_no_slash: "CHR ''/'' \<notin> set hex_digits"
  by (simp add: hex_digits_def)

lemma length_hex_digits [simp]: "length hex_digits = 16"
  by (simp add: hex_digits_def)

lemma length_hex2 [simp]: "length (hex2 b) = 2"
  by (simp add: hex2_def)

lemma hex2_chars: "set (hex2 b) \<subseteq> set hex_digits"
proof -
  have "unat b div 16 < 16"
    using unat_byte_less [of b] by simp
  then show ?thesis
    by (simp add: hex2_def)
qed

lemma hex2_no_slash: "CHR ''/'' \<notin> set (hex2 b)"
  using hex2_chars [of b] hex_digits_no_slash by blast

lemma distinct_hex_digits: "distinct hex_digits"
  by (simp add: hex_digits_def)

lemma hex2_inj: "hex2 b = hex2 b' \<longleftrightarrow> b = b'"
proof
  assume eq: "hex2 b = hex2 b'"
  have hi: "unat b div 16 < 16" "unat b' div 16 < 16"
    using unat_byte_less [of b] unat_byte_less [of b'] by simp_all
  have lo: "unat b mod 16 < 16" "unat b' mod 16 < 16"
    by simp_all
  from eq have "hex_digits ! (unat b div 16) = hex_digits ! (unat b' div 16)"
    and "hex_digits ! (unat b mod 16) = hex_digits ! (unat b' mod 16)"
    by (simp_all add: hex2_def)
  then have "unat b div 16 = unat b' div 16" and "unat b mod 16 = unat b' mod 16"
    using hi lo by (simp_all add: nth_eq_iff_index_eq [OF distinct_hex_digits])
  then have "unat b = unat b'"
    by (metis div_mult_mod_eq)
  then show "b = b'"
    by (rule word_unat_eq_iff [THEN iffD2])
next
  assume "b = b'"
  then show "hex2 b = hex2 b'" by simp
qed

subsection \<open>Splitting a path\<close>

lemma split_on_no_sep: "c \<notin> set s \<Longrightarrow> split_on c s = [s]"
  by (induction s) auto

lemma split_on_append: "c \<notin> set s \<Longrightarrow> split_on c (s @ c # t) = s # split_on c t"
  by (induction s) auto

lemma split_on_length: "length (split_on c s) = Suc (count_list s c)"
  by (induction s) (auto split: list.splits)

lemma split_on_slash_Cons: "split_on c (c # t) = [] # split_on c t"
  by simp

lemma segments_key2path:
  "segments (key2path key) =
   hex2 (md5_Sum key ! 0) # hex2 (md5_Sum key ! 1) # split_on CHR ''/'' (EncodeToString key)"
proof -
  have "split_on CHR ''/'' (hex2 (md5_Sum key ! 1) @ CHR ''/'' # EncodeToString key) =
        hex2 (md5_Sum key ! 1) # split_on CHR ''/'' (EncodeToString key)"
    by (rule split_on_append [OF hex2_no_slash])
  moreover have "split_on CHR ''/''
          (hex2 (md5_Sum key ! 0) @ CHR ''/'' # hex2 (md5_Sum key ! 1) @ CHR ''/'' # EncodeToString key) =
        hex2 (md5_Sum key ! 0) #
        split_on CHR ''/'' (hex2 (md5_Sum key ! 1) @ CHR ''/'' # EncodeToString key)"
    by (rule split_on_append [OF hex2_no_slash])
  ultimately show ?thesis
    by (simp add: segments_def key2path_def)
qed

section \<open>Evaluating MD5\<close>

text \<open>
  The digests of the concrete inputs used below, computed by rewriting with the
  definitions. The first agrees with the test suite of RFC 1321.
\<close>

lemma replicate_numeral_eval: "replicate (numeral k) x = x # replicate (pred_numeral k) x"
  by (simp add: numeral_eq_Suc)

lemma upt_eval: "[i..<j] = (if i < j then i # [i + 1..<j] else [])"
  by (simp add: upt_rec)

lemmas md5_eval = md5_Sum_def md5_pad_def md5_init_def md5_blocks.simps md5_block_def
  md5_f_def md5_g_def md5_table_def md5_shifts_def rotl32_def add32_def not32_def le_bytes_def
  replicate_numeral_eval upt_eval

lemma md5_Sum_abc:
  "md5_Sum [0x61, 0x62, 0x63] =
    [0x90, 0x01, 0x50, 0x98, 0x3c, 0xd2, 0x4f, 0xb0,
     0xd6, 0x96, 0x3f, 0x7d, 0x28, 0xe1, 0x7f, 0x72]"
  by (simp add: md5_eval)

lemma md5_Sum_ff:
  "md5_Sum [0xff, 0xff, 0xff] =
    [0x85, 0x97, 0xd4, 0xe7, 0xe6, 0x53, 0x52, 0xa3,
     0x02, 0xb6, 0x3e, 0x07, 0xbc, 0x01, 0xa7, 0xda]"
  by (simp add: md5_eval)

lemma md5_Sum_ax:
  "md5_Sum [0x2f, 0x61, 0x78] =
    [0x8f, 0x67, 0x15, 0x60, 0x9a, 0x4a, 0x41, 0x40,
     0x42, 0xbf, 0x9e, 0x9c, 0xec, 0x06, 0xa2, 0xbc]"
  by (simp add: md5_eval)

lemma md5_Sum_ay:
  "md5_Sum [0x2f, 0x61, 0x79] =
    [0xa3, 0x73, 0x87, 0xbc, 0x73, 0xdc, 0x89, 0x50,
     0xb5, 0xed, 0xea, 0x1e, 0x4b, 0x6f, 0x73, 0x13]"
  by (simp add: md5_eval)

lemma md5_Sum_collision_a:
  "md5_Sum collision_a =
    [0x79, 0x05, 0x40, 0x25, 0x25, 0x5f, 0xb1, 0xa2,
     0x6e, 0x4b, 0xc4, 0x22, 0xae, 0xf5, 0x4e, 0xb4]"
  by (simp add: md5_eval collision_a_def)

lemma md5_Sum_collision_b:
  "md5_Sum collision_b =
    [0x79, 0x05, 0x40, 0x25, 0x25, 0x5f, 0xb1, 0xa2,
     0x6e, 0x4b, 0xc4, 0x22, 0xae, 0xf5, 0x4e, 0xb4]"
  by (simp add: md5_eval collision_b_def)

lemma collision_differs: "collision_a \<noteq> collision_b"
  by (simp add: collision_a_def collision_b_def)

section \<open>Placement\<close>

lemma key2volume_loop_max:
  "key2volume_loop key vs (Some (score key r)) r \<in> insert r (set vs) \<and>
   (\<forall>u \<in> insert r (set vs). score key u \<le> score key (key2volume_loop key vs (Some (score key r)) r))"
proof (induction vs arbitrary: r)
  case Nil
  show ?case by simp
next
  case (Cons v vs)
  show ?case
  proof (cases "score key r < score key v")
    case True
    have step: "key2volume_loop key (v # vs) (Some (score key r)) r =
                key2volume_loop key vs (Some (score key v)) v"
      using True by (simp add: bytes_Compare_less)
    from Cons.IH [of v] True show ?thesis
      unfolding step by (auto intro: order_trans less_imp_le)
  next
    case False
    have step: "key2volume_loop key (v # vs) (Some (score key r)) r =
                key2volume_loop key vs (Some (score key r)) r"
      using False by (simp add: bytes_Compare_less)
    have "score key v \<le> score key r"
      using False by simp
    with Cons.IH [of r] show ?thesis
      unfolding step by (auto intro: order_trans)
  qed
qed

lemma key2volume_Nil: "key2volume key [] = []"
  by (simp add: key2volume_def)

lemma key2volume_Cons:
  "key2volume key (v # vs) = key2volume_loop key vs (Some (score key v)) v"
  by (simp add: key2volume_def)

lemma key2volume_max_both:
  assumes "pool \<noteq> []"
  shows "key2volume key pool \<in> set pool \<and>
         (\<forall>u \<in> set pool. score key u \<le> score key (key2volume key pool))"
proof -
  from assms obtain v vs where vs: "pool = v # vs"
    by (cases pool) auto
  show ?thesis
    using key2volume_loop_max [of key vs v] by (simp add: vs key2volume_Cons)
qed

lemma key2volume_max:
  assumes "pool \<noteq> []"
  shows "key2volume key pool \<in> set pool"
    and "u \<in> set pool \<Longrightarrow> score key u \<le> score key (key2volume key pool)"
  using key2volume_max_both [OF assms, of key] by blast+

text \<open>
  C1. For every key and every non-empty pool, \<^const>\<open>key2volume\<close> returns a member of the
  pool, and the digest of (key followed by that member's name) is the largest of the
  digests of all members in the lexicographic order on unsigned byte sequences: every
  member's digest is at most that one. The function reads nothing but its two arguments,
  so two calls with the same key and pool return the same volume.
\<close>

theorem key2volume_largest_score:
  assumes "pool \<noteq> []"
  shows "key2volume key pool \<in> set pool \<and>
         (\<forall>u \<in> set pool. score key u \<le> score key (key2volume key pool))"
  using assms by (rule key2volume_max_both)

text \<open>
  An instance: the key \<open>/a\<close> over the pool \<open>x\<close>, \<open>y\<close>. The digest of \<open>/ay\<close> starts with
  \<open>a3\<close> and that of \<open>/ax\<close> with \<open>8f\<close>, so \<open>y\<close> is chosen.
\<close>

theorem key2volume_largest_score_witness:
  "[''x'', ''y''] \<noteq> ([] :: string list) \<and>
   key2volume (bytes_of_string ''/a'') [''x'', ''y''] = ''y'' \<and>
   score (bytes_of_string ''/a'') ''x'' \<le> score (bytes_of_string ''/a'') ''y'' \<and>
   score (bytes_of_string ''/a'') ''y'' \<le> score (bytes_of_string ''/a'') ''y''"
proof -
  have val: "key2volume (bytes_of_string ''/a'') [''x'', ''y''] = ''y''"
    by (simp add: key2volume_def score_def bytes_of_string_def bytes_Compare_less
        md5_Sum_ax md5_Sum_ay)
  show ?thesis
    using key2volume_largest_score [of "[''x'', ''y'']" "bytes_of_string ''/a''"]
    by (simp add: val)
qed

text \<open>
  C3, as stated, fails. The two colliding messages, taken as volume names, have the same
  score for the empty key; the loop replaces the best volume only on a strictly larger
  score, so of two volumes with the same score the one that comes first in the list wins.
  Swapping the two names changes the answer.
\<close>

theorem key2volume_order_matters_on_tie:
  "mset [string_of_bytes collision_b, string_of_bytes collision_a] =
     mset [string_of_bytes collision_a, string_of_bytes collision_b] \<and>
   score [] (string_of_bytes collision_a) = score [] (string_of_bytes collision_b) \<and>
   key2volume [] [string_of_bytes collision_a, string_of_bytes collision_b] =
     string_of_bytes collision_a \<and>
   key2volume [] [string_of_bytes collision_b, string_of_bytes collision_a] =
     string_of_bytes collision_b \<and>
   string_of_bytes collision_a \<noteq> string_of_bytes collision_b"
  by (simp add: key2volume_def score_def bytes_Compare_less md5_Sum_collision_a
      md5_Sum_collision_b string_of_bytes_inj collision_differs)

lemma key2volume_set:
  assumes "set pool' = set pool" and "inj_on (score key) (set pool)"
  shows "key2volume key pool' = key2volume key pool"
proof (cases "pool = []")
  case True
  with assms(1) show ?thesis by simp
next
  case False
  with assms(1) have ne: "pool' \<noteq> []" by auto
  have m: "key2volume key pool \<in> set pool"
    by (rule key2volume_max(1) [OF False])
  have m': "key2volume key pool' \<in> set pool"
    using key2volume_max(1) [OF ne, of key] assms(1) by simp
  have "score key (key2volume key pool') \<le> score key (key2volume key pool)"
    by (rule key2volume_max(2) [OF False m'])
  moreover have "score key (key2volume key pool) \<le> score key (key2volume key pool')"
    using key2volume_max(2) [OF ne, of "key2volume key pool" key] m assms(1) by simp
  ultimately have "score key (key2volume key pool') = score key (key2volume key pool)"
    by (rule antisym)
  with assms(2) m m' show ?thesis
    by (simp add: inj_on_def)
qed

text \<open>
  C3, amended. For every key and every pool in which no two different names have the same
  score for that key, \<^const>\<open>key2volume\<close> over any permutation of the pool list returns
  the same volume as over the list itself.
\<close>

theorem key2volume_permutation:
  assumes "mset pool' = mset pool" and "inj_on (score key) (set pool)"
  shows "key2volume key pool' = key2volume key pool"
proof -
  from assms(1) have "set pool' = set pool"
    by (rule mset_eq_setD)
  then show ?thesis
    using assms(2) by (rule key2volume_set)
qed

theorem key2volume_permutation_witness:
  "mset [''y'', ''x''] = mset [''x'', ''y''] \<and>
   inj_on (score (bytes_of_string ''/a'')) (set [''x'', ''y'']) \<and>
   key2volume (bytes_of_string ''/a'') [''y'', ''x''] =
     key2volume (bytes_of_string ''/a'') [''x'', ''y'']"
proof -
  have p: "mset [''y'', ''x''] = mset [''x'', ''y'']"
    by simp
  have i: "inj_on (score (bytes_of_string ''/a'')) (set [''x'', ''y''])"
    by (simp add: score_def bytes_of_string_def md5_Sum_ax md5_Sum_ay)
  from key2volume_permutation [OF p i] p i show ?thesis
    by simp
qed

section \<open>Content addressing\<close>

text \<open>
  C4, as stated, fails. The alphabet of \<^verbatim>\<open>base64.StdEncoding\<close> contains \<open>/\<close>, the
  digit 63. The key of three bytes \<open>0xff\<close> is encoded as \<open>////\<close>, so its path has seven
  segments and the part after the two directories contains the path separator.
\<close>

theorem key2path_slash_in_encoding:
  "key2path [0xff, 0xff, 0xff] = ''/85/97/////'' \<and>
   segments (key2path [0xff, 0xff, 0xff]) = [''85'', ''97'', [], [], [], [], []] \<and>
   EncodeToString [0xff, 0xff, 0xff] = ''////''"
  by (simp add: key2path_def md5_Sum_ff hex2_def hex_digits_def enc_def encodeStd_def
      segments_def)

text \<open>
  C4, amended. For every key the path is \<open>/\<close>, two hexadecimal digits of the first byte
  of the key's digest, \<open>/\<close>, two hexadecimal digits of the second byte, \<open>/\<close>, and the
  standard Base64 encoding of the key. The two directory names have two characters each,
  all hexadecimal digits (and different bytes give different names). The encoding decodes back to exactly the key; it is made of the
  64 characters of the standard alphabet and \<open>=\<close>, and the alphabet contains \<open>/\<close>: the
  path has three segments plus one for every \<open>/\<close> in the encoding, the first two being
  the directory names.
\<close>

theorem key2path_shape:
  "key2path key =
     ''/'' @ hex2 (md5_Sum key ! 0) @ ''/'' @ hex2 (md5_Sum key ! 1) @ ''/'' @ EncodeToString key \<and>
   length (hex2 (md5_Sum key ! 0)) = 2 \<and> length (hex2 (md5_Sum key ! 1)) = 2 \<and>
   set (hex2 (md5_Sum key ! 0)) \<subseteq> set hex_digits \<and>
   set (hex2 (md5_Sum key ! 1)) \<subseteq> set hex_digits \<and>
   CHR ''/'' \<notin> set (hex2 (md5_Sum key ! 0)) \<and>
   CHR ''/'' \<notin> set (hex2 (md5_Sum key ! 1)) \<and>
   decode_base64 (EncodeToString key) = Some key \<and>
   set (EncodeToString key) \<subseteq> set encodeStd \<union> {CHR ''=''} \<and>
   segments (key2path key) =
     hex2 (md5_Sum key ! 0) # hex2 (md5_Sum key ! 1) # split_on CHR ''/'' (EncodeToString key) \<and>
   length (segments (key2path key)) = 3 + count_list (EncodeToString key) CHR ''/''"
proof -
  have len: "length (segments (key2path key)) = 3 + count_list (EncodeToString key) CHR ''/''"
    by (simp add: segments_key2path split_on_length)
  show ?thesis
    by (intro conjI key2path_def length_hex2 hex2_chars hex2_no_slash
        decode_base64_EncodeToString EncodeToString_chars segments_key2path len)
qed

section \<open>The host of a volume URL\<close>

lemma takeWhile_authority_key2path: "takeWhile authority_char (key2path key) = []"
  by (simp add: key2path_def authority_char_def)

lemma url_host_without_volume: "url_host (''http://'' @ key2path key) = []"
  by (simp add: url_host_def takeWhile_authority_key2path)

lemma url_host_of_volume:
  assumes "\<forall>c \<in> set v. authority_char c \<and> not_at c"
  shows "url_host (''http://'' @ v @ key2path key) = v"
proof -
  have a: "drop 7 (''http://'' @ v @ key2path key) = v @ key2path key"
    by simp
  have b: "takeWhile authority_char (v @ key2path key) = v"
    using assms by (simp add: takeWhile_authority_key2path)
  have c: "takeWhile not_at (rev v) = rev v"
    using assms by simp
  show ?thesis
    unfolding url_host_def a b c by simp
qed

lemma remote_put_without_host: "remote_put w (''http://'' @ key2path key) len = Some OtherError"
  using url_host_without_volume [of key] by (simp add: remote_put_def)

lemma remote_delete_without_host: "remote_delete w (''http://'' @ key2path key) = Some OtherError"
  using url_host_without_volume [of key] by (simp add: remote_delete_def)

lemma url_host_x: "url_host (''http://x'' @ key2path key) = ''x''"
  using url_host_of_volume [of "''x''" key] by (simp add: authority_char_def not_at_def)

section \<open>The lock table\<close>

lemma LockKey_held: "string_of_bytes key \<in> lock a \<Longrightarrow> LockKey a key = (False, a)"
  by (simp add: LockKey_def)

lemma LockKey_free:
  "string_of_bytes key \<notin> lock a \<Longrightarrow>
   LockKey a key = (True, a\<lparr>lock := insert (string_of_bytes key) (lock a)\<rparr>)"
  by (simp add: LockKey_def)

lemma LockKey_twice: "fst (LockKey (snd (LockKey a key)) key) = False"
  by (simp add: LockKey_def)

lemma UnlockKey_LockKey:
  "string_of_bytes key \<notin> lock a \<Longrightarrow> UnlockKey (snd (LockKey a key)) key = a"
  by (simp add: LockKey_def UnlockKey_def)

lemma locked_request_conflict:
  assumes "Method r = ''PUT'' \<or> Method r = ''DELETE''" and "RawQuery r = []"
    and "Path r \<in> lock a"
  shows "ServeHTTP w a r = (WriteHeader 409, a, [])"
  using assms by (auto simp add: ServeHTTP_def LockKey_def)

lemma unlock_after_lock:
  "p \<notin> lock a \<Longrightarrow> UnlockKey (a\<lparr>lock := insert p (lock a)\<rparr>) (bytes_of_string p) = a"
  by (simp add: UnlockKey_def)

lemma unlock_after_lock_db:
  "p \<notin> lock a \<Longrightarrow>
   UnlockKey (a\<lparr>lock := insert p (lock a), db := d\<rparr>) (bytes_of_string p) = a\<lparr>db := d\<rparr>"
  by (simp add: UnlockKey_def)

section \<open>The request handler\<close>

text \<open>
  C5. The claim that every \<^verbatim>\<open>GET\<close> or \<^verbatim>\<open>HEAD\<close> on a key with a record is
  redirected to the stored volume fails when \<^verbatim>\<open>db.Get\<close> returns an error other than
  \<^verbatim>\<open>ErrNotFound\<close>: the handler tests for \<^verbatim>\<open>ErrNotFound\<close> only, goes on with the
  nil value and answers 302 with the \<^verbatim>\<open>Location\<close> \<open>http://\<close> followed directly by
  the path, without the name of the volume \<open>x\<close> on which the key is stored.
\<close>

theorem fetch_with_failing_lookup:
  "map_of [(bytes_of_string ''/a'', bytes_of_string ''x'')] (bytes_of_string ''/a'') =
     Some (bytes_of_string ''x'') \<and>
   ServeHTTP (calm\<lparr>get_fails := True\<rparr>)
     \<lparr>db = [(bytes_of_string ''/a'', bytes_of_string ''x'')], lock = {}, volumes = [''x'']\<rparr>
     \<lparr>Method = ''HEAD'', Path = ''/a'', RawQuery = [], ContentLength = 0\<rparr> =
   (\<lparr>status = 302,
     header = [(''Location'', ''http://'' @ key2path (bytes_of_string ''/a'')),
               (''Content-Length'', ''0'')],
     body = NoBody\<rparr>,
    \<lparr>db = [(bytes_of_string ''/a'', bytes_of_string ''x'')], lock = {}, volumes = [''x'']\<rparr>,
    [DbGet (bytes_of_string ''/a''), Println ''on wrong volume, needs rebalance'']) \<and>
   ''http://'' @ key2path (bytes_of_string ''/a'') \<noteq>
     ''http://x'' @ key2path (bytes_of_string ''/a'')"
  by (simp add: ServeHTTP_def serve_method_def serve_get_def db_Get_def calm_def
      key2volume_def string_of_bytes_Nil key2path_def)

text \<open>
  When the lookup returns the stored volume, the response is 302 with the
  \<^verbatim>\<open>Location\<close> header \<open>http://\<close>, the stored volume, the path of the key, and
  \<^verbatim>\<open>Content-Length: 0\<close>, and no body; the \<^verbatim>\<open>App\<close> is unchanged. When
  \<^const>\<open>key2volume\<close> over the current pool differs from the stored volume the handler
  prints a line, and that is the only difference.
\<close>

lemma fetch_redirects_to_stored_volume:
  fixes r :: Request
  defines "key \<equiv> bytes_of_string (Path r)"
  assumes "Method r = ''GET'' \<or> Method r = ''HEAD''"
    and "RawQuery r = []"
    and "db_Get w (db a) key = (v, None)"
  shows "ServeHTTP w a r =
    (\<lparr>status = 302,
      header = [(''Location'', ''http://'' @ string_of_bytes v @ key2path key),
                (''Content-Length'', ''0'')],
      body = NoBody\<rparr>,
     a,
     DbGet key #
       (if string_of_bytes v \<noteq> key2volume key (volumes a)
        then [Println ''on wrong volume, needs rebalance''] else []))"
  using assms by (auto simp add: ServeHTTP_def serve_method_def serve_get_def)

text \<open>
  An instance with drift: the key \<open>/a\<close> is stored on \<open>y\<close>, the pool is now \<open>x\<close> alone.
\<close>

lemma fetch_redirects_to_stored_volume_example:
  "ServeHTTP calm
     \<lparr>db = [(bytes_of_string ''/a'', bytes_of_string ''y'')], lock = {}, volumes = [''x'']\<rparr>
     \<lparr>Method = ''HEAD'', Path = ''/a'', RawQuery = [], ContentLength = 0\<rparr> =
   (\<lparr>status = 302,
     header = [(''Location'', ''http://y'' @ key2path (bytes_of_string ''/a'')),
               (''Content-Length'', ''0'')],
     body = NoBody\<rparr>,
    \<lparr>db = [(bytes_of_string ''/a'', bytes_of_string ''y'')], lock = {}, volumes = [''x'']\<rparr>,
    [DbGet (bytes_of_string ''/a''), Println ''on wrong volume, needs rebalance''])"
proof -
  have g: "db_Get calm [(bytes_of_string ''/a'', bytes_of_string ''y'')] (bytes_of_string ''/a'') =
     (bytes_of_string ''y'', None)"
    by (simp add: db_Get_def calm_def)
  show ?thesis
    using g fetch_redirects_to_stored_volume
      [where r = "\<lparr>Method = ''HEAD'', Path = ''/a'', RawQuery = [], ContentLength = 0\<rparr>"
         and w = calm and v = "bytes_of_string ''y''"
         and a = "\<lparr>db = [(bytes_of_string ''/a'', bytes_of_string ''y'')], lock = {},
                   volumes = [''x'']\<rparr>"]
    by (simp add: key2volume_def)
qed

text \<open>
  C6, as stated, fails. The handler takes the lock before it looks at the payload length:
  an empty \<^verbatim>\<open>PUT\<close> on a key whose lock is held is answered 409, not 411.
\<close>

theorem empty_create_on_locked_key:
  "ServeHTTP calm \<lparr>db = [], lock = {''/a''}, volumes = [''x'']\<rparr>
     \<lparr>Method = ''PUT'', Path = ''/a'', RawQuery = [], ContentLength = 0\<rparr> =
   (WriteHeader 409, \<lparr>db = [], lock = {''/a''}, volumes = [''x'']\<rparr>, [])"
  by (simp add: ServeHTTP_def LockKey_def)

text \<open>
  C6, amended. Every \<^verbatim>\<open>PUT\<close> without query string whose payload length is zero is
  rejected, makes no call on the store or on a volume server, and leaves the store and
  the lock table as they were; the answer is 411 (length required) when the key's lock is
  free and 409 (conflict) when it is held.
\<close>

theorem empty_create_rejected:
  assumes "Method r = ''PUT''" and "RawQuery r = []" and "ContentLength r = 0"
  shows "ServeHTTP w a r = (WriteHeader (if Path r \<in> lock a then 409 else 411), a, [])"
  using assms
  by (simp add: ServeHTTP_def serve_method_def serve_put_def LockKey_def unlock_after_lock)

theorem empty_create_rejected_witness:
  "ServeHTTP calm \<lparr>db = [], lock = {}, volumes = [''x'']\<rparr>
     \<lparr>Method = ''PUT'', Path = ''/a'', RawQuery = [], ContentLength = 0\<rparr> =
   (WriteHeader 411, \<lparr>db = [], lock = {}, volumes = [''x'']\<rparr>, [])"
  using empty_create_rejected
    [of "\<lparr>Method = ''PUT'', Path = ''/a'', RawQuery = [], ContentLength = 0\<rparr>" calm
        "\<lparr>db = [], lock = {}, volumes = [''x'']\<rparr>"]
  by simp

text \<open>
  C7, as stated, fails. A \<^verbatim>\<open>PUT\<close> with an empty payload on a key that has a record
  is answered 411, not 403: the length check comes before the lookup.
\<close>

theorem empty_create_on_existing_key:
  "ServeHTTP calm
     \<lparr>db = [(bytes_of_string ''/a'', bytes_of_string ''x'')], lock = {}, volumes = [''x'']\<rparr>
     \<lparr>Method = ''PUT'', Path = ''/a'', RawQuery = [], ContentLength = 0\<rparr> =
   (WriteHeader 411,
    \<lparr>db = [(bytes_of_string ''/a'', bytes_of_string ''x'')], lock = {}, volumes = [''x'']\<rparr>, [])"
  by (simp add: ServeHTTP_def serve_method_def serve_put_def LockKey_def UnlockKey_def)

text \<open>
  C7, amended. Every \<^verbatim>\<open>PUT\<close> without query string on a key that has a record is
  rejected, issues no write to a volume server, and leaves the record and the whole store
  unchanged. The answer is 403 (forbidden) when the key's lock is free and the payload
  length is not zero; it is 409 when the lock is held and 411 when the lock is free
  and the payload length is zero.
\<close>

theorem create_never_overwrites:
  fixes r :: Request
  defines "key \<equiv> bytes_of_string (Path r)"
  assumes "Method r = ''PUT''" and "RawQuery r = []"
    and "map_of (db a) key = Some v"
  shows "ServeHTTP w a r =
    (WriteHeader (if Path r \<in> lock a then 409 else if ContentLength r = 0 then 411 else 403),
     a,
     if Path r \<in> lock a \<or> ContentLength r = 0 then [] else [DbGet key])"
  using assms
  by (simp add: ServeHTTP_def serve_method_def serve_put_def LockKey_def unlock_after_lock
      db_Get_def)

theorem create_never_overwrites_witness:
  "map_of [(bytes_of_string ''/a'', bytes_of_string ''x'')] (bytes_of_string ''/a'') =
     Some (bytes_of_string ''x'') \<and>
   ServeHTTP calm
     \<lparr>db = [(bytes_of_string ''/a'', bytes_of_string ''x'')], lock = {}, volumes = [''x'']\<rparr>
     \<lparr>Method = ''PUT'', Path = ''/a'', RawQuery = [], ContentLength = 5\<rparr> =
   (WriteHeader 403,
    \<lparr>db = [(bytes_of_string ''/a'', bytes_of_string ''x'')], lock = {}, volumes = [''x'']\<rparr>,
    [DbGet (bytes_of_string ''/a'')])"
  using create_never_overwrites
    [where r = "\<lparr>Method = ''PUT'', Path = ''/a'', RawQuery = [], ContentLength = 5\<rparr>"
       and w = calm and v = "bytes_of_string ''x''"
       and a = "\<lparr>db = [(bytes_of_string ''/a'', bytes_of_string ''x'')], lock = {},
                 volumes = [''x'']\<rparr>"]
  by simp

text \<open>
  C8, as stated, fails. A \<^verbatim>\<open>DELETE\<close> on a key whose lock is held is answered 409
  before the store is touched: the record is still there afterwards and a following
  \<^verbatim>\<open>GET\<close> is redirected to it.
\<close>

theorem delete_on_locked_key:
  "ServeHTTP calm
     \<lparr>db = [(bytes_of_string ''/a'', bytes_of_string ''x'')], lock = {''/a''}, volumes = [''x'']\<rparr>
     \<lparr>Method = ''DELETE'', Path = ''/a'', RawQuery = [], ContentLength = 0\<rparr> =
   (WriteHeader 409,
    \<lparr>db = [(bytes_of_string ''/a'', bytes_of_string ''x'')], lock = {''/a''}, volumes = [''x'']\<rparr>,
    []) \<and>
   status (fst (ServeHTTP calm
     \<lparr>db = [(bytes_of_string ''/a'', bytes_of_string ''x'')], lock = {''/a''}, volumes = [''x'']\<rparr>
     \<lparr>Method = ''GET'', Path = ''/a'', RawQuery = [], ContentLength = 0\<rparr>)) = 302"
  by (simp add: ServeHTTP_def LockKey_def serve_method_def serve_get_def db_Get_def calm_def)

text \<open>
  C8, amended. For every \<^verbatim>\<open>DELETE\<close> without query string on a key whose lock is
  free, whose lookup returns a volume and whose \<^verbatim>\<open>db.Delete\<close> returns no error, the
  handler calls \<^verbatim>\<open>db.Delete\<close> before it calls the volume server; whatever the volume
  server answers (204 gives the status 204, anything else 500), the record is absent from
  the store afterwards, and a following \<^verbatim>\<open>GET\<close> of the key whose lookup does not fail
  is answered 404.
\<close>

theorem delete_removes_record_first:
  fixes r :: Request
  defines "key \<equiv> bytes_of_string (Path r)"
  assumes "Method r = ''DELETE''" and "RawQuery r = []" and "Path r \<notin> lock a"
    and "db_Get w (db a) key = (v, None)"
    and "\<not> delete_fails w"
  shows "ServeHTTP w a r =
    (WriteHeader (if remote_delete w (''http://'' @ string_of_bytes v @ key2path key) \<noteq> None
                  then 500 else 204),
     a\<lparr>db := AList.delete key (db a)\<rparr>,
     [DbGet key, DbDelete key, RemoteDelete (''http://'' @ string_of_bytes v @ key2path key)]) \<and>
    map_of (AList.delete key (db a)) key = None \<and>
    (\<not> get_fails w' \<longrightarrow>
       ServeHTTP w' (a\<lparr>db := AList.delete key (db a)\<rparr>)
         \<lparr>Method = ''GET'', Path = Path r, RawQuery = [], ContentLength = 0\<rparr> =
       (\<lparr>status = 404, header = [(''Content-Length'', ''0'')], body = NoBody\<rparr>,
        a\<lparr>db := AList.delete key (db a)\<rparr>, [DbGet key]))"
proof -
  have res: "ServeHTTP w a r =
    (WriteHeader (if remote_delete w (''http://'' @ string_of_bytes v @ key2path key) \<noteq> None
                  then 500 else 204),
     a\<lparr>db := AList.delete key (db a)\<rparr>,
     [DbGet key, DbDelete key, RemoteDelete (''http://'' @ string_of_bytes v @ key2path key)])"
    using assms
    by (simp add: ServeHTTP_def serve_method_def serve_delete_def LockKey_def
        unlock_after_lock_db db_Delete_def)
  have gone: "map_of (AList.delete key (db a)) key = None"
    by (simp add: delete_conv')
  have "ServeHTTP w' (a\<lparr>db := AList.delete key (db a)\<rparr>)
           \<lparr>Method = ''GET'', Path = Path r, RawQuery = [], ContentLength = 0\<rparr> =
         (\<lparr>status = 404, header = [(''Content-Length'', ''0'')], body = NoBody\<rparr>,
          a\<lparr>db := AList.delete key (db a)\<rparr>, [DbGet key])"
    if "\<not> get_fails w'"
    using that gone
    by (simp add: ServeHTTP_def serve_method_def serve_get_def db_Get_def key_def)
  with res gone show ?thesis
    by simp
qed

text \<open>An instance in which the volume server fails: the answer is 500, the record is gone.\<close>

theorem delete_removes_record_first_witness:
  "''/a'' \<notin> ({} :: string set) \<and>
   db_Get (calm\<lparr>delete_reply := Failed\<rparr>) [(bytes_of_string ''/a'', bytes_of_string ''x'')]
     (bytes_of_string ''/a'') = (bytes_of_string ''x'', None) \<and>
   \<not> delete_fails (calm\<lparr>delete_reply := Failed\<rparr>) \<and>
   \<not> get_fails calm \<and>
   ServeHTTP (calm\<lparr>delete_reply := Failed\<rparr>)
     \<lparr>db = [(bytes_of_string ''/a'', bytes_of_string ''x'')], lock = {}, volumes = [''x'']\<rparr>
     \<lparr>Method = ''DELETE'', Path = ''/a'', RawQuery = [], ContentLength = 0\<rparr> =
   (WriteHeader 500, \<lparr>db = [], lock = {}, volumes = [''x'']\<rparr>,
    [DbGet (bytes_of_string ''/a''), DbDelete (bytes_of_string ''/a''),
     RemoteDelete (''http://x'' @ key2path (bytes_of_string ''/a''))]) \<and>
   ServeHTTP calm \<lparr>db = [], lock = {}, volumes = [''x'']\<rparr>
     \<lparr>Method = ''GET'', Path = ''/a'', RawQuery = [], ContentLength = 0\<rparr> =
   (\<lparr>status = 404, header = [(''Content-Length'', ''0'')], body = NoBody\<rparr>,
    \<lparr>db = [], lock = {}, volumes = [''x'']\<rparr>, [DbGet (bytes_of_string ''/a'')])"
proof -
  have g: "db_Get (calm\<lparr>delete_reply := Failed\<rparr>)
      [(bytes_of_string ''/a'', bytes_of_string ''x'')] (bytes_of_string ''/a'') =
      (bytes_of_string ''x'', None)"
    by (simp add: db_Get_def calm_def)
  have d: "\<not> delete_fails (calm\<lparr>delete_reply := Failed\<rparr>)" and c: "\<not> get_fails calm"
    by (simp_all add: calm_def)
  show ?thesis
    using g d c delete_removes_record_first
      [where r = "\<lparr>Method = ''DELETE'', Path = ''/a'', RawQuery = [], ContentLength = 0\<rparr>"
         and w = "calm\<lparr>delete_reply := Failed\<rparr>" and w' = calm
         and v = "bytes_of_string ''x''"
         and a = "\<lparr>db = [(bytes_of_string ''/a'', bytes_of_string ''x'')], lock = {},
                   volumes = [''x'']\<rparr>"]
    by (simp add: remote_delete_def calm_def)
qed

text \<open>
  C9. The claim that an error of the store fails the request holds for \<^verbatim>\<open>db.Put\<close>
  only. The error returned by \<^verbatim>\<open>db.Delete\<close> is dropped: with a volume server that
  answers 204 the \<^verbatim>\<open>DELETE\<close> is answered 204, and the record is still in the store.
  An error of \<^verbatim>\<open>db.Get\<close> other than \<^verbatim>\<open>ErrNotFound\<close> makes a \<^verbatim>\<open>PUT\<close> answer
  403 and a \<^verbatim>\<open>GET\<close> answer 302 with an empty volume name.
\<close>

theorem store_errors_not_reported:
  "ServeHTTP (calm\<lparr>delete_fails := True\<rparr>)
     \<lparr>db = [(bytes_of_string ''/a'', bytes_of_string ''x'')], lock = {}, volumes = [''x'']\<rparr>
     \<lparr>Method = ''DELETE'', Path = ''/a'', RawQuery = [], ContentLength = 0\<rparr> =
   (WriteHeader 204,
    \<lparr>db = [(bytes_of_string ''/a'', bytes_of_string ''x'')], lock = {}, volumes = [''x'']\<rparr>,
    [DbGet (bytes_of_string ''/a''), DbDelete (bytes_of_string ''/a''),
     RemoteDelete (''http://x'' @ key2path (bytes_of_string ''/a''))]) \<and>
   ServeHTTP (calm\<lparr>get_fails := True\<rparr>) \<lparr>db = [], lock = {}, volumes = [''x'']\<rparr>
     \<lparr>Method = ''PUT'', Path = ''/a'', RawQuery = [], ContentLength = 5\<rparr> =
   (WriteHeader 403, \<lparr>db = [], lock = {}, volumes = [''x'']\<rparr>,
    [DbGet (bytes_of_string ''/a'')]) \<and>
   ServeHTTP (calm\<lparr>get_fails := True\<rparr>)
     \<lparr>db = [(bytes_of_string ''/a'', bytes_of_string ''x'')], lock = {}, volumes = [''x'']\<rparr>
     \<lparr>Method = ''GET'', Path = ''/a'', RawQuery = [], ContentLength = 0\<rparr> =
   (\<lparr>status = 302,
     header = [(''Location'', ''http://'' @ key2path (bytes_of_string ''/a'')),
               (''Content-Length'', ''0'')],
     body = NoBody\<rparr>,
    \<lparr>db = [(bytes_of_string ''/a'', bytes_of_string ''x'')], lock = {}, volumes = [''x'']\<rparr>,
    [DbGet (bytes_of_string ''/a''), Println ''on wrong volume, needs rebalance''])"
  using url_host_x [of "bytes_of_string ''/a''"]
  by (simp add: ServeHTTP_def serve_method_def serve_delete_def serve_put_def serve_get_def
      LockKey_def UnlockKey_def db_Get_def db_Delete_def remote_delete_def calm_def
      key2volume_def string_of_bytes_Nil)

text \<open>
  C10. Over the empty pool \<^const>\<open>key2volume\<close> returns the empty string; it has no way
  to signal an error. No test of the pool stands between the lookup and the volume
  server: a \<^verbatim>\<open>PUT\<close> that gets past the lock, the length check and the lookup is not
  turned away, the handler builds the target URL with the empty name, \<open>http://\<close>
  followed directly by the path of the key, and calls \<^verbatim>\<open>remote_put\<close> with it. That
  URL has no host, so the call returns an error whatever the volume servers do: the
  request is reported failed with 500 and nothing is stored.
\<close>

theorem empty_pool_create:
  fixes r :: Request
  defines "key \<equiv> bytes_of_string (Path r)"
  shows "key2volume k [] = [] \<and>
   (Method r = ''PUT'' \<and> RawQuery r = [] \<and> Path r \<notin> lock a \<and> ContentLength r \<noteq> 0 \<and>
    snd (db_Get w (db a) key) = Some ErrNotFound \<and> volumes a = [] \<longrightarrow>
    ServeHTTP w a r =
      (WriteHeader 500, a,
       [DbGet key, RemotePut (''http://'' @ key2path key) (ContentLength r)]))"
  unfolding key_def
  using remote_put_without_host [of w "bytes_of_string (Path r)" "ContentLength r"]
  by (auto simp add: key2volume_def ServeHTTP_def serve_method_def serve_put_def LockKey_def
      unlock_after_lock)

theorem empty_pool_create_witness:
  "key2volume (bytes_of_string ''/a'') [] = [] \<and>
   ''/a'' \<notin> ({} :: string set) \<and> (5 :: int) \<noteq> 0 \<and>
   snd (db_Get calm [] (bytes_of_string ''/a'')) = Some ErrNotFound \<and>
   ServeHTTP calm \<lparr>db = [], lock = {}, volumes = []\<rparr>
     \<lparr>Method = ''PUT'', Path = ''/a'', RawQuery = [], ContentLength = 5\<rparr> =
   (WriteHeader 500, \<lparr>db = [], lock = {}, volumes = []\<rparr>,
    [DbGet (bytes_of_string ''/a''),
     RemotePut (''http://'' @ key2path (bytes_of_string ''/a'')) 5])"
proof -
  have g: "snd (db_Get calm [] (bytes_of_string ''/a'')) = Some ErrNotFound"
    by (simp add: db_Get_def calm_def)
  show ?thesis
    using g empty_pool_create
      [where k = "bytes_of_string ''/a''" and w = calm
         and r = "\<lparr>Method = ''PUT'', Path = ''/a'', RawQuery = [], ContentLength = 5\<rparr>"
         and a = "\<lparr>db = [], lock = {}, volumes = []\<rparr>"]
    by simp
qed

text \<open>
  The pool that \<^verbatim>\<open>main\<close> builds from an empty argument is the single empty name
  (\<^verbatim>\<open>strings.Split\<close> of the empty string); a \<^verbatim>\<open>PUT\<close> over it ends the same way.
\<close>

lemma blank_pool_create:
  fixes r :: Request
  defines "key \<equiv> bytes_of_string (Path r)"
  assumes "Method r = ''PUT''" and "RawQuery r = []" and "Path r \<notin> lock a"
    and "ContentLength r \<noteq> 0" and "snd (db_Get w (db a) key) = Some ErrNotFound"
    and "volumes a = [[]]"
  shows "ServeHTTP w a r =
      (WriteHeader 500, a,
       [DbGet key, RemotePut (''http://'' @ key2path key) (ContentLength r)])"
  using assms remote_put_without_host [of w "bytes_of_string (Path r)" "ContentLength r"]
  by (simp add: key2volume_def ServeHTTP_def serve_method_def serve_put_def LockKey_def
      unlock_after_lock)

text \<open>With a volume name that gives a host, the same request is stored and answered 201.\<close>

lemma create_example:
  "ServeHTTP calm \<lparr>db = [], lock = {}, volumes = [''x'']\<rparr>
     \<lparr>Method = ''PUT'', Path = ''/a'', RawQuery = [], ContentLength = 5\<rparr> =
   (WriteHeader 201,
    \<lparr>db = [(bytes_of_string ''/a'', bytes_of_string ''x'')], lock = {}, volumes = [''x'']\<rparr>,
    [DbGet (bytes_of_string ''/a''),
     RemotePut (''http://x'' @ key2path (bytes_of_string ''/a'')) 5,
     DbPut (bytes_of_string ''/a'') (bytes_of_string ''x'')])"
  using url_host_x [of "bytes_of_string ''/a''"]
  by (simp add: ServeHTTP_def serve_method_def serve_put_def LockKey_def UnlockKey_def
      db_Get_def db_Put_def remote_put_def calm_def key2volume_def)

end
